theory Spec2Isabelle
  imports Complex_Main "HOL-Library.Word" "HOL-Library.Signed_Division"
begin

section \<open>CryptoTextEngine: data model\<close>

text \<open>
  The engine of \<^verbatim>\<open>src/js/cryptotext.js\<close> as a state-passing model.

  \<^item> A JavaScript string is its sequence of UTF-16 code units; \<^verbatim>\<open>s.length\<close>,
    \<^verbatim>\<open>s[i]\<close> and \<^verbatim>\<open>s.slice\<close> count code units.
  \<^item> A JavaScript number is either \<^verbatim>\<open>NaN\<close> or a finite number, the latter taken as an
    exact real: the rounding of IEEE doubles, overflow and the infinities are outside the model.
  \<^item> A value handed in from outside (an option, an argument, the result of the energy
    provider) is a \<open>jsval\<close>; arrays hold strings, as the JSDoc type \<^verbatim>\<open>string[]\<close> says.
\<close>

type_synonym jschar = "16 word"
type_synonym jsstring = "jschar list"

datatype jsnum = NaN | Num real

datatype jsval =
    JUndefined
  | JNull
  | JBool bool
  | JNumber jsnum
  | JString jsstring
  | JArray "jsstring list"
  | JObject

datatype exn = Thrown jsval

text \<open>
  The fields of the instance. \<open>el\<close> is the \<^verbatim>\<open>textContent\<close> of the output element,
  \<open>raf\<close> counts the calls of \<^verbatim>\<open>requestAnimationFrame\<close> made so far (the only effect on the
  frame scheduler). The energy provider reads an outside world \<open>'w\<close> and either throws or
  returns a value. \<open>controls\<close> holds the own properties of the controls object; a missing
  key reads as \<^verbatim>\<open>undefined\<close>.
\<close>

record 'w engine =
  el :: jsstring
  lines :: "jsstring list"
  duration :: real
  getEnergy :: "'w \<Rightarrow> exn + jsval"
  controls :: "jsstring \<rightharpoonup> jsnum"
  index :: int
  elapsed :: real
  running :: bool
  lastTs :: "real option"
  raf :: nat

text \<open>ASCII literals as JavaScript strings.\<close>

definition js :: "string \<Rightarrow> jsstring" where
  "js s = map (\<lambda>c. of_nat (of_char c)) s"

section \<open>Helper functions\<close>

definition clamp01 :: "real \<Rightarrow> real" where
  "clamp01 v = (if v < 0 then 0 else if v > 1 then 1 else v)"

definition smooth01 :: "real \<Rightarrow> real" where
  "smooth01 x0 = (let x = clamp01 x0 in x * x * (3 - 2 * x))"

text \<open>\<^verbatim>\<open>typeof v !== 'number'\<close> and \<^verbatim>\<open>Number.isNaN(v)\<close>.\<close>

fun typeof_number :: "jsval \<Rightarrow> bool" where
  "typeof_number (JNumber n) = True"
| "typeof_number v = False"

fun isNaN :: "jsval \<Rightarrow> bool" where
  "isNaN (JNumber NaN) = True"
| "isNaN v = False"

text \<open>
  \<^verbatim>\<open>_safeEnergy\<close>: the \<^verbatim>\<open>try\<close> block calls the provider; an exception of the provider
  reaches the \<^verbatim>\<open>catch\<close>, which returns 0.
\<close>

definition safeEnergy :: "'w engine \<Rightarrow> 'w \<Rightarrow> real" where
  "safeEnergy s w =
     (case getEnergy s w of
        Inl e \<Rightarrow> 0
      | Inr v \<Rightarrow>
          (if \<not> typeof_number v \<or> isNaN v then 0
           else (case v of JNumber (Num r) \<Rightarrow> clamp01 r | _ \<Rightarrow> 0)))"

section \<open>Constants of the engine\<close>

text \<open>The glyphs set by the constructor (34 code units) and never reassigned.\<close>

definition glitchGlyphs :: jsstring where
  "glitchGlyphs =
    [0x30, 0x31, 0x394, 0x3A3, 0x39E, 0x3A9, 0x2248, 0x223F, 0x3BB, 0xB5, 0x3A9, 0x192,
     0x224B, 0x258C, 0x2590, 0x2592, 0x2591, 0x2593, 0x2588, 0x23, 0x2F, 0x25, 0x5C, 0x7C,
     0x2B, 0x3C, 0x3E, 0x29C9, 0x29D6, 0x29C8, 0x25CA, 0x2301, 0x2302, 0x21AF]"

text \<open>
  The string literal tested in \<^verbatim>\<open>_applyGlitch\<close>: space, U+00A0, \<^verbatim>\<open>/ \ | : -\<close>, U+2014,
  U+00B7 and the comma.
\<close>

definition separators :: jsstring where
  "separators = [0x20, 0xA0, 0x2F, 0x5C, 0x7C, 0x3A, 0x2D, 0x2014, 0xB7, 0x2C]"


definition defaultControls :: "jsstring \<rightharpoonup> jsnum" where
  "defaultControls = [js ''textSpeed'' \<mapsto> Num 1.0, js ''textGlitch'' \<mapsto> Num 0.3]"

section \<open>Property assignment\<close>

text \<open>
  \<^verbatim>\<open>obj[key] = v\<close> on a plain object, \<open>v\<close> a number. The key \<^verbatim>\<open>__proto__\<close> is not a
  property of the object but the accessor inherited from \<^verbatim>\<open>Object.prototype\<close>, and its
  setter ignores a value that is neither an object nor \<^verbatim>\<open>null\<close>: nothing is stored.
  Every other key becomes (or stays) an own property holding \<open>v\<close>.
\<close>

definition set_property :: "(jsstring \<rightharpoonup> jsnum) \<Rightarrow> jsstring \<Rightarrow> jsnum \<Rightarrow> (jsstring \<rightharpoonup> jsnum)" where
  "set_property obj key v = (if key = js ''__proto__'' then obj else obj(key \<mapsto> v))"


section \<open>Construction\<close>



section \<open>Public operations\<close>

definition start :: "'w engine \<Rightarrow> 'w engine" where
  "start s = (if running s then s
              else s\<lparr>running := True, lastTs := None, raf := raf s + 1\<rparr>)"

definition stop :: "'w engine \<Rightarrow> 'w engine" where
  "stop s = s\<lparr>running := False\<rparr>"

definition reset :: "'w engine \<Rightarrow> 'w engine" where
  "reset s = s\<lparr>index := 0, elapsed := 0\<rparr>"

definition setLines :: "jsval \<Rightarrow> 'w engine \<Rightarrow> 'w engine" where
  "setLines v s =
     (case v of
        JArray xs \<Rightarrow> if xs \<noteq> [] then reset (s\<lparr>lines := xs\<rparr>) else s
      | _ \<Rightarrow> s)"

definition setControl :: "jsstring \<Rightarrow> jsval \<Rightarrow> 'w engine \<Rightarrow> 'w engine" where
  "setControl name v s =
     (if \<not> typeof_number v then s
      else (case v of
              JNumber n \<Rightarrow> s\<lparr>controls := set_property (controls s) name n\<rparr>
            | _ \<Rightarrow> s))"

section \<open>Timeline\<close>

text \<open>
  \<^verbatim>\<open>c || d\<close> for a control \<open>c\<close> that is \<^verbatim>\<open>undefined\<close> (no such key) or a number:
  \<^verbatim>\<open>undefined\<close>, \<^verbatim>\<open>NaN\<close> and 0 are falsy.
\<close>

definition or_default :: "jsnum option \<Rightarrow> real \<Rightarrow> real" where
  "or_default c d =
     (case c of
        None \<Rightarrow> d
      | Some NaN \<Rightarrow> d
      | Some (Num r) \<Rightarrow> if r = 0 then d else r)"

definition baseSpeed :: "'w engine \<Rightarrow> real" where
  "baseSpeed s = or_default (controls s (js ''textSpeed'')) 1.0"

definition effectiveSpeed :: "'w engine \<Rightarrow> 'w \<Rightarrow> real" where
  "effectiveSpeed s w = baseSpeed s * (0.6 + 0.8 * safeEnergy s w)"

text \<open>
  The \<^verbatim>\<open>while\<close> loop of \<^verbatim>\<open>_update\<close>. \<^verbatim>\<open>%\<close> is the truncating remainder. (With no lines
  JavaScript would store \<^verbatim>\<open>NaN\<close> in \<open>index\<close>; \<open>lines\<close> is never empty, see below.)
  The loop need not end for every state, so its result is an option.
\<close>

partial_function (option) update_loop :: "'w engine \<Rightarrow> 'w engine option" where
  "update_loop s =
     (if elapsed s > duration s
      then update_loop (s\<lparr>elapsed := elapsed s - duration s,
                          index := (index s + 1) smod int (length (lines s))\<rparr>)
      else Some s)"

definition update :: "real \<Rightarrow> 'w \<Rightarrow> 'w engine \<Rightarrow> 'w engine option" where
  "update dt w s = update_loop (s\<lparr>elapsed := elapsed s + dt * effectiveSpeed s w\<rparr>)"


section \<open>Reveal curve\<close>

definition computeRevealPhase :: "real \<Rightarrow> real" where
  "computeRevealPhase phase =
     (if phase < 0.5 then smooth01 (phase / 0.5) else smooth01 ((1 - phase) / 0.5))"

section \<open>Glitch transform\<close>

text \<open>
  \<^verbatim>\<open>Math.random()\<close> is a sequence of draws \<open>rnd\<close> and the number \<open>k\<close> of draws used so
  far; a function that draws returns the new count. The count belongs to the random
  source, not to the engine.

  \<^verbatim>\<open>out += glyphs[idx]\<close>: an index outside the string reads \<^verbatim>\<open>undefined\<close>, which the
  concatenation turns into the nine characters of that word.
\<close>

definition glyph_at :: "jsstring \<Rightarrow> int \<Rightarrow> jsstring" where
  "glyph_at glyphs idx =
     (if 0 \<le> idx \<and> idx < int (length glyphs) then [glyphs ! nat idx] else js ''undefined'')"

function glitch_loop ::
  "jsstring \<Rightarrow> real \<Rightarrow> real \<Rightarrow> (nat \<Rightarrow> real) \<Rightarrow> nat \<Rightarrow> jsstring \<Rightarrow> nat \<Rightarrow> jsstring \<times> nat" where
  "glitch_loop visibleText t glitchIntensity rnd i out k =
     (if i < length visibleText then
        (let ch = visibleText ! i in
         if ch \<in> set separators
         then glitch_loop visibleText t glitchIntensity rnd (i + 1) (out @ [ch]) k
         else
           (let local = (sin (t * 1.7 + real i * 13.37) + 1) * 0.5;
                prob = glitchIntensity * local
            in if rnd k < prob
               then (let idx = \<lfloor>rnd (k + 1) * real (length glitchGlyphs)\<rfloor>
                     in glitch_loop visibleText t glitchIntensity rnd (i + 1)
                          (out @ glyph_at glitchGlyphs idx) (k + 2))
               else glitch_loop visibleText t glitchIntensity rnd (i + 1) (out @ [ch]) (k + 1)))
      else (out, k))"
  by pat_completeness auto
termination
  by (relation "measure (\<lambda>(visibleText, t, g, rnd, i, out, k). length visibleText - i)") auto

declare glitch_loop.simps [simp del]

definition glitchIntensity_of :: "'w engine \<Rightarrow> real \<Rightarrow> real \<Rightarrow> real" where
  "glitchIntensity_of s phase energy =
     (let base = or_default (controls s (js ''textGlitch'')) 0;
          centerWeight = 1 - \<bar>phase - 0.5\<bar> * 2
      in clamp01 (base * 0.7 + energy * 0.6 * (0.3 + 0.7 * centerWeight)))"

definition applyGlitch ::
  "'w engine \<Rightarrow> (nat \<Rightarrow> real) \<Rightarrow> nat \<Rightarrow> jsstring \<Rightarrow> real \<Rightarrow> real \<Rightarrow> jsstring \<times> nat" where
  "applyGlitch s rnd k visibleText phase energy =
     glitch_loop visibleText (elapsed s) (glitchIntensity_of s phase energy) rnd 0 [] k"

section \<open>Rendering and the frame callback\<close>

text \<open>\<^verbatim>\<open>this.lines[this.index] || ''\<close>: an index outside the array reads \<^verbatim>\<open>undefined\<close>.\<close>

definition currentLine :: "'w engine \<Rightarrow> jsstring" where
  "currentLine s =
     (if 0 \<le> index s \<and> index s < int (length (lines s)) then lines s ! nat (index s) else [])"

text \<open>\<^verbatim>\<open>line.slice(0, n)\<close>: a negative end counts from the end of the string.\<close>

definition slice0 :: "jsstring \<Rightarrow> int \<Rightarrow> jsstring" where
  "slice0 line n =
     (let len = int (length line);
          e = (if n < 0 then max (len + n) 0 else min n len)
      in take (nat e) line)"

text \<open>
  The phase is \<^verbatim>\<open>elapsed / duration\<close>; the constructor makes \<open>duration\<close> positive, so the
  division by zero of JavaScript does not arise.
\<close>

definition getCurrentRenderedText ::
  "'w \<Rightarrow> (nat \<Rightarrow> real) \<Rightarrow> nat \<Rightarrow> 'w engine \<Rightarrow> (jsstring \<times> nat) \<times> 'w engine" where
  "getCurrentRenderedText w rnd k s =
     (let line = currentLine s;
          phase = elapsed s / duration s;
          revealPhase = computeRevealPhase phase;
          visibleLen = \<lfloor>real (length line) * revealPhase\<rfloor>;
          baseVisible = slice0 line visibleLen;
          energy = safeEnergy s w
      in (applyGlitch s rnd k baseVisible phase energy, s))"

definition render :: "'w \<Rightarrow> (nat \<Rightarrow> real) \<Rightarrow> nat \<Rightarrow> 'w engine \<Rightarrow> 'w engine \<times> nat" where
  "render w rnd k s =
     (let line = currentLine s in
      if line = [] then (s\<lparr>el := []\<rparr>, k)
      else
        (let phase = elapsed s / duration s;
             revealPhase = computeRevealPhase phase;
             visibleLen = max 0 \<lfloor>real (length line) * revealPhase\<rfloor>;
             baseVisible = slice0 line visibleLen;
             energy = safeEnergy s w;
             glitched = applyGlitch s rnd k baseVisible phase energy
         in (s\<lparr>el := fst glitched\<rparr>, snd glitched)))"


section \<open>Reachable states\<close>



section \<open>A sample engine\<close>


definition sample_engine :: "unit engine" where
  "sample_engine =
     \<lparr> el = [],
       lines = [js ''AB-C'', js ''D E'', js ''F''],
       duration = 10,
       getEnergy = (\<lambda>w. Inr (JNumber (Num 0))),
       controls = defaultControls,
       index = 0,
       elapsed = 0,
       running = False,
       lastTs = None,
       raf = 0 \<rparr>"

text \<open>The same engine with \<^verbatim>\<open>textGlitch\<close> turned up to 1.\<close>

definition glitchy_engine :: "unit engine" where
  "glitchy_engine = setControl (js ''textGlitch'') (JNumber (Num 1)) sample_engine"

section \<open>Properties\<close>

lemma clamp01_range: "0 \<le> clamp01 v \<and> clamp01 v \<le> 1"
  by (simp add: clamp01_def)

lemma smooth01_range: "0 \<le> smooth01 x \<and> smooth01 x \<le> 1"
proof -
  define y where "y = clamp01 x"
  have y: "0 \<le> y" "y \<le> 1"
    using clamp01_range [of x] by (simp_all add: y_def)
  have lo: "0 \<le> y * y * (3 - 2 * y)"
    using y by (intro mult_nonneg_nonneg) simp_all
  have "1 - y * y * (3 - 2 * y) = (1 - y) * (1 - y) * (1 + 2 * y)"
    by (simp add: algebra_simps)
  moreover have "0 \<le> (1 - y) * (1 - y) * (1 + 2 * y)"
    using y by (intro mult_nonneg_nonneg) simp_all
  ultimately have hi: "y * y * (3 - 2 * y) \<le> 1"
    by linarith
  show ?thesis
    using lo hi by (simp add: smooth01_def y_def Let_def)
qed



subsection \<open>The timeline step\<close>











subsection \<open>Energy sampling and speed\<close>

text \<open>
  C3. The sampled energy is a real in [0,1], whatever the provider does: the sampler has
  no failing outcome. When the provider throws, or returns a value that is not a number
  or is \<^verbatim>\<open>NaN\<close>, the energy is 0; otherwise it is the returned number clamped into [0,1].
\<close>

theorem safeEnergy_total:
  "0 \<le> safeEnergy s w \<and> safeEnergy s w \<le> 1
   \<and> ((\<exists>e. getEnergy s w = Inl e) \<longrightarrow> safeEnergy s w = 0)
   \<and> (\<forall>v. getEnergy s w = Inr v \<and> (\<not> typeof_number v \<or> isNaN v) \<longrightarrow> safeEnergy s w = 0)
   \<and> (\<forall>r. getEnergy s w = Inr (JNumber (Num r)) \<longrightarrow> safeEnergy s w = max 0 (min 1 r))"
  using clamp01_range
  by (auto simp: safeEnergy_def clamp01_def split: sum.splits jsval.splits jsnum.splits)

text \<open>A provider that throws, one that returns a string, \<^verbatim>\<open>NaN\<close>, 7, -2 and 0.25.\<close>

theorem safeEnergy_total_witness:
  "safeEnergy (sample_engine\<lparr>getEnergy := (\<lambda>w. Inl (Thrown (JString (js ''no audio''))))\<rparr>) () = 0
   \<and> safeEnergy (sample_engine\<lparr>getEnergy := (\<lambda>w. Inr (JString (js ''loud'')))\<rparr>) () = 0
   \<and> safeEnergy (sample_engine\<lparr>getEnergy := (\<lambda>w. Inr (JNumber NaN))\<rparr>) () = 0
   \<and> safeEnergy (sample_engine\<lparr>getEnergy := (\<lambda>w. Inr (JNumber (Num 7)))\<rparr>) () = 1
   \<and> safeEnergy (sample_engine\<lparr>getEnergy := (\<lambda>w. Inr (JNumber (Num (- 2))))\<rparr>) () = 0
   \<and> safeEnergy (sample_engine\<lparr>getEnergy := (\<lambda>w. Inr (JNumber (Num (1/4))))\<rparr>) () = 1/4"
  using safeEnergy_total [of "sample_engine\<lparr>getEnergy := (\<lambda>w. Inl (Thrown (JString (js ''no audio''))))\<rparr>" "()"]
    safeEnergy_total [of "sample_engine\<lparr>getEnergy := (\<lambda>w. Inr (JString (js ''loud'')))\<rparr>" "()"]
    safeEnergy_total [of "sample_engine\<lparr>getEnergy := (\<lambda>w. Inr (JNumber NaN))\<rparr>" "()"]
    safeEnergy_total [of "sample_engine\<lparr>getEnergy := (\<lambda>w. Inr (JNumber (Num 7)))\<rparr>" "()"]
    safeEnergy_total [of "sample_engine\<lparr>getEnergy := (\<lambda>w. Inr (JNumber (Num (- 2))))\<rparr>" "()"]
    safeEnergy_total [of "sample_engine\<lparr>getEnergy := (\<lambda>w. Inr (JNumber (Num (1/4))))\<rparr>" "()"]
  by (simp add: safeEnergy_def clamp01_def)

text \<open>
  C4, as the code has it. The base speed is \<^verbatim>\<open>controls.textSpeed || 1.0\<close>: a stored
  number other than 0 is used as it is, and the speed is that number times
  \<open>0.6 + 0.8 * energy\<close>; a stored 0 or \<^verbatim>\<open>NaN\<close>, or no stored value, gives base speed 1.
  This is the speed \<^verbatim>\<open>_update\<close> advances \<open>elapsed\<close> with.
\<close>

theorem effectiveSpeed_value:
  "(\<forall>r. controls s (js ''textSpeed'') = Some (Num r) \<and> r \<noteq> 0
        \<longrightarrow> effectiveSpeed s w = r * (0.6 + 0.8 * safeEnergy s w))
   \<and> (controls s (js ''textSpeed'') = None \<or> controls s (js ''textSpeed'') = Some NaN
        \<or> controls s (js ''textSpeed'') = Some (Num 0)
        \<longrightarrow> effectiveSpeed s w = 1.0 * (0.6 + 0.8 * safeEnergy s w))
   \<and> update dt w s = update_loop (s\<lparr>elapsed := elapsed s + dt * effectiveSpeed s w\<rparr>)"
  by (auto simp: effectiveSpeed_def baseSpeed_def or_default_def update_def)

theorem effectiveSpeed_value_witness:
  "effectiveSpeed (setControl (js ''textSpeed'') (JNumber (Num 2)) sample_engine) () = 2 * (0.6 + 0.8 * 0)
   \<and> effectiveSpeed (setControl (js ''textSpeed'') (JNumber NaN) sample_engine) () = 0.6"
  using effectiveSpeed_value [of "setControl (js ''textSpeed'') (JNumber (Num 2)) sample_engine" "()"]
    effectiveSpeed_value [of "setControl (js ''textSpeed'') (JNumber NaN) sample_engine" "()"]
  by (simp add: setControl_def set_property_def js_def safeEnergy_def sample_engine_def clamp01_def)

text \<open>
  With \<^verbatim>\<open>textSpeed\<close> set to 0 and energy 0 the claimed speed is 0; the engine runs at 0.6.
\<close>

theorem effectiveSpeed_value_counterexample:
  "controls (setControl (js ''textSpeed'') (JNumber (Num 0)) sample_engine) (js ''textSpeed'') = Some (Num 0)
   \<and> safeEnergy (setControl (js ''textSpeed'') (JNumber (Num 0)) sample_engine) () = 0
   \<and> effectiveSpeed (setControl (js ''textSpeed'') (JNumber (Num 0)) sample_engine) () = 6/10
   \<and> effectiveSpeed (setControl (js ''textSpeed'') (JNumber (Num 0)) sample_engine) ()
       \<noteq> 0 * (0.6 + 0.8 * safeEnergy (setControl (js ''textSpeed'') (JNumber (Num 0)) sample_engine) ())"
  by (simp add: effectiveSpeed_def baseSpeed_def or_default_def setControl_def set_property_def js_def safeEnergy_def
      sample_engine_def clamp01_def)

subsection \<open>Setters and the running flag\<close>




text \<open>
  C7. Calling \<^verbatim>\<open>start\<close> twice in a row gives the state of calling it once, with one
  frame request and not two, and so for \<^verbatim>\<open>stop\<close>; \<^verbatim>\<open>start\<close> changes nothing when the
  engine is running.
\<close>

theorem start_stop_idempotent:
  "start (start s) = start s \<and> stop (stop s) = stop s \<and> (running s \<longrightarrow> start s = s)"
  by (simp add: start_def stop_def)

theorem start_stop_idempotent_witness:
  "start (start sample_engine) = sample_engine\<lparr>running := True, raf := 1\<rparr>
   \<and> stop (stop (start sample_engine)) = sample_engine\<lparr>raf := 1\<rparr>
   \<and> running (start sample_engine) \<and> start (start sample_engine) = start sample_engine"
  using start_stop_idempotent [of sample_engine] start_stop_idempotent [of "start sample_engine"]
  by (simp add: start_def stop_def sample_engine_def)

text \<open>
  C8. \<^verbatim>\<open>setLines\<close> with an array that is not empty replaces the lines by its elements
  and resets \<open>index\<close> and \<open>elapsed\<close> to 0, changing nothing else; with an empty array or a
  value that is not an array it changes nothing. (Lists are values here, so the new lines
  are a copy.)
\<close>

theorem setLines_guard:
  "(\<forall>xs. v = JArray xs \<and> xs \<noteq> [] \<longrightarrow> setLines v s = s\<lparr>lines := xs, index := 0, elapsed := 0\<rparr>)
   \<and> (\<not> (\<exists>xs. v = JArray xs \<and> xs \<noteq> []) \<longrightarrow> setLines v s = s)"
  by (cases v) (simp_all add: setLines_def reset_def)

theorem setLines_guard_witness:
  "setLines (JArray []) (sample_engine\<lparr>index := 2, elapsed := 3\<rparr>) = sample_engine\<lparr>index := 2, elapsed := 3\<rparr>
   \<and> setLines (JString (js ''abc'')) (sample_engine\<lparr>index := 2, elapsed := 3\<rparr>) = sample_engine\<lparr>index := 2, elapsed := 3\<rparr>
   \<and> setLines (JArray [js ''X'']) (sample_engine\<lparr>index := 2, elapsed := 3\<rparr>) = sample_engine\<lparr>lines := [js ''X'']\<rparr>"
  using setLines_guard [of "JArray []" "sample_engine\<lparr>index := 2, elapsed := 3\<rparr>"]
    setLines_guard [of "JString (js ''abc'')" "sample_engine\<lparr>index := 2, elapsed := 3\<rparr>"]
    setLines_guard [of "JArray [js ''X'']" "sample_engine\<lparr>index := 2, elapsed := 3\<rparr>"]
  by (simp add: sample_engine_def js_def)

subsection \<open>The glitch transform\<close>

lemma glyph_at_single:
  assumes "0 \<le> r" "r < 1"
  shows "\<exists>c. glyph_at glitchGlyphs \<lfloor>r * real (length glitchGlyphs)\<rfloor> = [c]"
proof -
  have len: "0 < real (length glitchGlyphs)"
    by (simp add: glitchGlyphs_def)
  have "0 \<le> r * real (length glitchGlyphs)"
    using assms len by simp
  then have lo: "0 \<le> \<lfloor>r * real (length glitchGlyphs)\<rfloor>"
    by simp
  have "r * real (length glitchGlyphs) < real (length glitchGlyphs)"
    using assms len by simp
  then have hi: "\<lfloor>r * real (length glitchGlyphs)\<rfloor> < int (length glitchGlyphs)"
    by (simp add: floor_less_iff)
  show ?thesis
    using lo hi by (simp add: glyph_at_def)
qed

lemma glitch_loop_suffix:
  assumes "\<forall>n. 0 \<le> rnd n \<and> rnd n < 1"
  shows "\<exists>rest. fst (glitch_loop vt t g rnd i out k) = out @ rest
           \<and> length rest = length vt - i
           \<and> (\<forall>j<length rest. vt ! (i + j) \<in> set separators \<longrightarrow> rest ! j = vt ! (i + j))"
  using assms
proof (induction vt t g rnd i out k rule: glitch_loop.induct)
  case (1 vt t g rnd i out k)
  note draws = \<open>\<forall>n. 0 \<le> rnd n \<and> rnd n < 1\<close>
  show ?case
  proof (cases "i < length vt")
    case False
    then show ?thesis
      by (subst glitch_loop.simps) simp
  next
    case inside: True
    define ch where "ch = vt ! i"
    define prob where "prob = g * ((sin (t * 1.7 + real i * 13.37) + 1) * 0.5)"
    define idx where "idx = \<lfloor>rnd (k + 1) * real (length glitchGlyphs)\<rfloor>"
    obtain c where c: "glyph_at glitchGlyphs idx = [c]"
      using glyph_at_single [of "rnd (k + 1)"] draws unfolding idx_def by blast
    have "\<exists>x out' k'. fst (glitch_loop vt t g rnd i out k) = fst (glitch_loop vt t g rnd (i + 1) (out @ [x]) k')
            \<and> (ch \<in> set separators \<longrightarrow> x = ch)
            \<and> (\<exists>rest. fst (glitch_loop vt t g rnd (i + 1) (out @ [x]) k') = (out @ [x]) @ rest
                  \<and> length rest = length vt - (i + 1)
                  \<and> (\<forall>j<length rest. vt ! (i + 1 + j) \<in> set separators \<longrightarrow> rest ! j = vt ! (i + 1 + j)))"
    proof (cases "ch \<in> set separators")
      case True
      have "fst (glitch_loop vt t g rnd i out k) = fst (glitch_loop vt t g rnd (i + 1) (out @ [ch]) k)"
        using inside True by (subst glitch_loop.simps) (simp add: ch_def)
      moreover note "1.IH"(1) [OF inside ch_def True draws]
      ultimately show ?thesis by blast
    next
      case sep: False
      show ?thesis
      proof (cases "rnd k < prob")
        case True
        have "fst (glitch_loop vt t g rnd i out k) = fst (glitch_loop vt t g rnd (i + 1) (out @ [c]) (k + 2))"
          using inside sep True c
          by (subst glitch_loop.simps) (simp add: ch_def prob_def idx_def Let_def)
        moreover have "\<exists>rest. fst (glitch_loop vt t g rnd (i + 1) (out @ [c]) (k + 2)) = (out @ [c]) @ rest
                  \<and> length rest = length vt - (i + 1)
                  \<and> (\<forall>j<length rest. vt ! (i + 1 + j) \<in> set separators \<longrightarrow> rest ! j = vt ! (i + 1 + j))"
          using "1.IH"(2) [OF inside ch_def sep refl refl _ refl draws] True c
          by (simp add: prob_def idx_def)
        ultimately show ?thesis using sep by blast
      next
        case False
        have "fst (glitch_loop vt t g rnd i out k) = fst (glitch_loop vt t g rnd (i + 1) (out @ [ch]) (k + 1))"
          using inside sep False
          by (subst glitch_loop.simps) (simp add: ch_def prob_def Let_def)
        moreover have "\<exists>rest. fst (glitch_loop vt t g rnd (i + 1) (out @ [ch]) (k + 1)) = (out @ [ch]) @ rest
                  \<and> length rest = length vt - (i + 1)
                  \<and> (\<forall>j<length rest. vt ! (i + 1 + j) \<in> set separators \<longrightarrow> rest ! j = vt ! (i + 1 + j))"
          using "1.IH"(3) [OF inside ch_def sep refl refl _ draws] False
          by (simp add: prob_def)
        ultimately show ?thesis using sep by blast
      qed
    qed
    then obtain x k' rest where
      run: "fst (glitch_loop vt t g rnd i out k) = (out @ [x]) @ rest"
      and x: "ch \<in> set separators \<longrightarrow> x = ch"
      and len: "length rest = length vt - (i + 1)"
      and keep: "\<forall>j<length rest. vt ! (i + 1 + j) \<in> set separators \<longrightarrow> rest ! j = vt ! (i + 1 + j)"
      by metis
    have "fst (glitch_loop vt t g rnd i out k) = out @ (x # rest)"
      using run by simp
    moreover have "length (x # rest) = length vt - i"
      using len inside by simp
    moreover have "\<forall>j<length (x # rest). vt ! (i + j) \<in> set separators \<longrightarrow> (x # rest) ! j = vt ! (i + j)"
    proof (intro allI impI)
      fix j assume j: "j < length (x # rest)" and s: "vt ! (i + j) \<in> set separators"
      show "(x # rest) ! j = vt ! (i + j)"
      proof (cases j)
        case 0
        with s x show ?thesis by (simp add: ch_def)
      next
        case (Suc j')
        with j s keep show ?thesis by simp
      qed
    qed
    ultimately show ?thesis by blast
  qed
qed

text \<open>
  C6. Whatever the text, the phase, the energy, the controls and the draws (each in
  [0,1), as \<^verbatim>\<open>Math.random\<close> gives them), the output of \<^verbatim>\<open>_applyGlitch\<close> is as long as
  its input, and wherever the input holds one of the ten separator characters (space,
  U+00A0, \<^verbatim>\<open>/ \ | : -\<close>, U+2014, U+00B7, comma) the output holds the same character.
\<close>

theorem applyGlitch_keeps_separators:
  assumes "\<forall>n. 0 \<le> rnd n \<and> rnd n < 1"
  shows "length (fst (applyGlitch s rnd k vt phase energy)) = length vt
         \<and> (\<forall>i<length vt. vt ! i \<in> set separators
               \<longrightarrow> fst (applyGlitch s rnd k vt phase energy) ! i = vt ! i)"
  using glitch_loop_suffix [OF assms, of vt "elapsed s" "glitchIntensity_of s phase energy" 0 "[]" k]
  by (auto simp: applyGlitch_def)

lemma glitchy_intensity: "glitchIntensity_of glitchy_engine 0 0 = 7/10"
  by (simp add: glitchIntensity_of_def glitchy_engine_def setControl_def set_property_def js_def or_default_def clamp01_def)

lemma glitchy_run:
  "applyGlitch glitchy_engine (\<lambda>n. 1/10) 0 (js ''X- ,'') 0 0 = ([0x3A3, 0x2D, 0x20, 0x2C], 2)"
proof -
  have e: "elapsed glitchy_engine = 0"
    by (simp add: glitchy_engine_def setControl_def set_property_def js_def sample_engine_def)
  show ?thesis
    unfolding applyGlitch_def glitchy_intensity e
    by (simp add: glitch_loop.simps js_def separators_def glitchGlyphs_def glyph_at_def)
qed

text \<open>
  At full glitch the \<^verbatim>\<open>X\<close> of \<^verbatim>\<open>"X- ,"\<close> becomes the glyph U+03A3 and the three
  separators after it stay.
\<close>

theorem applyGlitch_keeps_separators_witness:
  "(\<forall>n. (0::real) \<le> (\<lambda>n. 1/10) n \<and> (\<lambda>n. 1/10) n < (1::real))
   \<and> fst (applyGlitch glitchy_engine (\<lambda>n. 1/10) 0 (js ''X- ,'') 0 0) = [0x3A3, 0x2D, 0x20, 0x2C]
   \<and> js ''X- ,'' ! 1 \<in> set separators
   \<and> fst (applyGlitch glitchy_engine (\<lambda>n. 1/10) 0 (js ''X- ,'') 0 0) ! 1 = js ''X- ,'' ! 1"
proof -
  have h: "\<forall>n. (0::real) \<le> (\<lambda>n. 1/10) n \<and> (\<lambda>n. 1/10) n < (1::real)"
    by simp
  have s: "js ''X- ,'' ! 1 \<in> set separators"
    by (simp add: js_def separators_def)
  from applyGlitch_keeps_separators [OF h, of glitchy_engine 0 "js ''X- ,''" 0 0]
  have "fst (applyGlitch glitchy_engine (\<lambda>n. 1/10) 0 (js ''X- ,'') 0 0) ! 1 = js ''X- ,'' ! 1"
    using s by (simp add: js_def)
  with h s glitchy_run show ?thesis by simp
qed

subsection \<open>Reading the current frame\<close>

lemma computeRevealPhase_range: "0 \<le> computeRevealPhase p \<and> computeRevealPhase p \<le> 1"
  using smooth01_range by (simp add: computeRevealPhase_def)

lemma visibleLen_range:
  "0 \<le> \<lfloor>real (length line) * computeRevealPhase p\<rfloor>
   \<and> \<lfloor>real (length line) * computeRevealPhase p\<rfloor> \<le> int (length line)"
proof -
  have r: "0 \<le> computeRevealPhase p" "computeRevealPhase p \<le> 1"
    using computeRevealPhase_range [of p] by simp_all
  have "0 \<le> real (length line) * computeRevealPhase p"
    using r by simp
  moreover have "real (length line) * computeRevealPhase p \<le> real (length line)"
    using r by (simp add: mult_left_le)
  ultimately show ?thesis
    by (simp add: le_floor_iff floor_le_iff)
qed

text \<open>
  C9. \<^verbatim>\<open>getCurrentRenderedText\<close> leaves the engine exactly as it was (every field: index,
  elapsed, running, lines, duration, controls, and the output element too). What it
  returns is the glitch transform of a prefix of the current line, the prefix of length
  \<open>\<lfloor>length * revealFraction\<rfloor>\<close>; with the same draws and the same energy that is the
  text \<^verbatim>\<open>_render\<close> would write to the element.
\<close>

theorem getCurrentRenderedText_pure:
  "snd (getCurrentRenderedText w rnd k s) = s
   \<and> fst (getCurrentRenderedText w rnd k s)
       = applyGlitch s rnd k
           (take (nat \<lfloor>real (length (currentLine s)) * computeRevealPhase (elapsed s / duration s)\<rfloor>)
              (currentLine s))
           (elapsed s / duration s) (safeEnergy s w)
   \<and> fst (fst (getCurrentRenderedText w rnd k s)) = el (fst (render w rnd k s))"
proof -
  let ?line = "currentLine s"
  let ?n = "\<lfloor>real (length ?line) * computeRevealPhase (elapsed s / duration s)\<rfloor>"
  have n: "0 \<le> ?n" "?n \<le> int (length ?line)"
    using visibleLen_range [of ?line "elapsed s / duration s"] by simp_all
  then have sl: "slice0 ?line ?n = take (nat ?n) ?line"
    by (simp add: slice0_def Let_def min_def)
  have mx: "max 0 ?n = ?n" using n by simp
  have e: "applyGlitch s rnd k [] (elapsed s / duration s) (safeEnergy s w) = ([], k)"
    by (simp add: applyGlitch_def glitch_loop.simps)
  show ?thesis
    using sl mx e by (simp add: getCurrentRenderedText_def render_def Let_def)
qed

text \<open>
  Half-way through the first line, glitch off: the whole line comes back, three draws are
  used (one for each character that is no separator) and the engine is untouched.
\<close>

theorem getCurrentRenderedText_pure_witness:
  "getCurrentRenderedText () (\<lambda>n. 1/2) 0
       (setControl (js ''textGlitch'') (JNumber (Num 0)) (sample_engine\<lparr>elapsed := 5\<rparr>))
     = ((js ''AB-C'', 3),
        setControl (js ''textGlitch'') (JNumber (Num 0)) (sample_engine\<lparr>elapsed := 5\<rparr>))"
proof -
  let ?s = "setControl (js ''textGlitch'') (JNumber (Num 0)) (sample_engine\<lparr>elapsed := 5\<rparr>)"
  have line: "currentLine ?s = js ''AB-C''"
    by (simp add: currentLine_def setControl_def set_property_def js_def sample_engine_def)
  have ph: "elapsed ?s / duration ?s = 1/2"
    by (simp add: setControl_def set_property_def js_def sample_engine_def)
  have rv: "computeRevealPhase (1/2) = 1"
    by (simp add: computeRevealPhase_def smooth01_def clamp01_def)
  have gi: "glitchIntensity_of ?s (1/2) (safeEnergy ?s ()) = 0"
    by (simp add: glitchIntensity_of_def setControl_def set_property_def js_def or_default_def safeEnergy_def
        sample_engine_def clamp01_def)
  have run: "applyGlitch ?s (\<lambda>n. 1/2) 0 (js ''AB-C'') (1/2) (safeEnergy ?s ()) = (js ''AB-C'', 3)"
    unfolding applyGlitch_def gi
    by (simp add: glitch_loop.simps js_def separators_def)
  have "take (nat \<lfloor>real (length (js ''AB-C'')) * (1::real)\<rfloor>) (js ''AB-C'') = js ''AB-C''"
    by (simp add: js_def)
  with getCurrentRenderedText_pure [of "()" "\<lambda>n. 1/2" 0 ?s] line ph rv run
  show ?thesis
    by (simp add: prod_eq_iff)
qed

subsection \<open>The lines are never empty\<close>















end
